theory Spec2Isabelle
  imports Complex_Main
begin

section \<open>NumPy floats and the Python pieces the core uses\<close>

text \<open>
  The core of spectro-coherence (\<^verbatim>\<open>spectro_coherence/cindex.py\<close>) works on NumPy arrays of
  floats. An array entry is a finite number, a not-a-number marker or an infinity.
  Finite numbers are modelled as reals: the arithmetic below is the IEEE arithmetic of
  NumPy on the special values (\<open>0/0\<close>, \<open>inf - inf\<close> and \<open>0 * inf\<close> are NaN, a finite
  non-zero number over zero is an infinity, NaN compares false with everything), and exact
  real arithmetic on finite values: rounding, overflow of finite results and the sign of
  zero are not modelled.
\<close>

datatype npfloat = Fin real | NaN | PInf | NInf

datatype py_error = ValueError | IndexError

fun isfinite :: "npfloat \<Rightarrow> bool" where
  "isfinite (Fin _) = True"
| "isfinite _ = False"

fun fl_neg :: "npfloat \<Rightarrow> npfloat" where
  "fl_neg (Fin a) = Fin (- a)"
| "fl_neg NaN = NaN"
| "fl_neg PInf = NInf"
| "fl_neg NInf = PInf"

fun fl_abs :: "npfloat \<Rightarrow> npfloat" where
  "fl_abs (Fin a) = Fin \<bar>a\<bar>"
| "fl_abs NaN = NaN"
| "fl_abs PInf = PInf"
| "fl_abs NInf = PInf"

fun fl_add :: "npfloat \<Rightarrow> npfloat \<Rightarrow> npfloat" where
  "fl_add (Fin a) (Fin b) = Fin (a + b)"
| "fl_add NaN _ = NaN"
| "fl_add _ NaN = NaN"
| "fl_add PInf NInf = NaN"
| "fl_add NInf PInf = NaN"
| "fl_add PInf _ = PInf"
| "fl_add _ PInf = PInf"
| "fl_add NInf _ = NInf"
| "fl_add _ NInf = NInf"

definition fl_sub :: "npfloat \<Rightarrow> npfloat \<Rightarrow> npfloat" where
  "fl_sub a b = fl_add a (fl_neg b)"

fun fl_mul :: "npfloat \<Rightarrow> npfloat \<Rightarrow> npfloat" where
  "fl_mul (Fin a) (Fin b) = Fin (a * b)"
| "fl_mul NaN _ = NaN"
| "fl_mul _ NaN = NaN"
| "fl_mul (Fin a) PInf = (if a = 0 then NaN else if 0 < a then PInf else NInf)"
| "fl_mul (Fin a) NInf = (if a = 0 then NaN else if 0 < a then NInf else PInf)"
| "fl_mul PInf (Fin b) = (if b = 0 then NaN else if 0 < b then PInf else NInf)"
| "fl_mul NInf (Fin b) = (if b = 0 then NaN else if 0 < b then NInf else PInf)"
| "fl_mul PInf PInf = PInf"
| "fl_mul PInf NInf = NInf"
| "fl_mul NInf PInf = NInf"
| "fl_mul NInf NInf = PInf"

fun fl_div :: "npfloat \<Rightarrow> npfloat \<Rightarrow> npfloat" where
  "fl_div (Fin a) (Fin b) =
     (if b \<noteq> 0 then Fin (a / b)
      else if a = 0 then NaN else if 0 < a then PInf else NInf)"
| "fl_div NaN _ = NaN"
| "fl_div _ NaN = NaN"
| "fl_div (Fin a) PInf = Fin 0"
| "fl_div (Fin a) NInf = Fin 0"
| "fl_div PInf (Fin b) = (if 0 \<le> b then PInf else NInf)"
| "fl_div NInf (Fin b) = (if 0 \<le> b then NInf else PInf)"
| "fl_div PInf PInf = NaN"
| "fl_div PInf NInf = NaN"
| "fl_div NInf PInf = NaN"
| "fl_div NInf NInf = NaN"

fun fl_sqrt :: "npfloat \<Rightarrow> npfloat" where
  "fl_sqrt (Fin a) = (if 0 \<le> a then Fin (sqrt a) else NaN)"
| "fl_sqrt NaN = NaN"
| "fl_sqrt PInf = PInf"
| "fl_sqrt NInf = NaN"

text \<open>The comparison \<open>a < b\<close>; \<open>a > b\<close> is \<open>fl_less b a\<close>.\<close>

fun fl_less :: "npfloat \<Rightarrow> npfloat \<Rightarrow> bool" where
  "fl_less (Fin a) (Fin b) = (a < b)"
| "fl_less NaN _ = False"
| "fl_less _ NaN = False"
| "fl_less NInf NInf = False"
| "fl_less NInf _ = True"
| "fl_less _ NInf = False"
| "fl_less PInf _ = False"
| "fl_less _ PInf = True"

text \<open>\<^verbatim>\<open>np.minimum\<close> and \<^verbatim>\<open>np.maximum\<close>, which propagate NaN.\<close>

definition fl_min :: "npfloat \<Rightarrow> npfloat \<Rightarrow> npfloat" where
  "fl_min a b = (if a = NaN \<or> b = NaN then NaN else if fl_less b a then b else a)"

definition fl_max :: "npfloat \<Rightarrow> npfloat \<Rightarrow> npfloat" where
  "fl_max a b = (if a = NaN \<or> b = NaN then NaN else if fl_less a b then b else a)"

text \<open>\<^verbatim>\<open>np.clip(x, lo, hi)\<close> is \<^verbatim>\<open>minimum(maximum(x, lo), hi)\<close>.\<close>

definition np_clip :: "npfloat \<Rightarrow> npfloat \<Rightarrow> npfloat \<Rightarrow> npfloat" where
  "np_clip x lo hi = fl_min (fl_max x lo) hi"

subsection \<open>Reductions over an array\<close>

primrec np_sum :: "npfloat list \<Rightarrow> npfloat" where
  "np_sum [] = Fin 0"
| "np_sum (x # xs) = fl_add x (np_sum xs)"

text \<open>\<^verbatim>\<open>np.mean\<close> divides the sum by the number of entries; on an empty array that is
  \<open>0/0\<close>, NaN (NumPy warns, it does not raise).\<close>

definition np_mean :: "npfloat list \<Rightarrow> npfloat" where
  "np_mean xs = fl_div (np_sum xs) (Fin (real (length xs)))"

text \<open>\<^verbatim>\<open>np.std\<close> with its default \<open>ddof = 0\<close>: the square root of the mean of the squared
  deviations from the mean.\<close>

definition np_std :: "npfloat list \<Rightarrow> npfloat" where
  "np_std xs =
     (let arrmean = np_mean xs;
          x = map (\<lambda>v. fl_sub v arrmean) xs;
          x2 = map (\<lambda>d. fl_mul d d) x
      in fl_sqrt (fl_div (np_sum x2) (Fin (real (length xs)))))"

text \<open>\<^verbatim>\<open>np.min\<close> and \<^verbatim>\<open>np.max\<close> have no identity: on an empty array they raise
  \<^verbatim>\<open>ValueError\<close>.\<close>

fun np_min :: "npfloat list \<Rightarrow> py_error + npfloat" where
  "np_min [] = Inl ValueError"
| "np_min (x # xs) = Inr (foldl fl_min x xs)"

fun np_max :: "npfloat list \<Rightarrow> py_error + npfloat" where
  "np_max [] = Inl ValueError"
| "np_max (x # xs) = Inr (foldl fl_max x xs)"

text \<open>\<^verbatim>\<open>np.diff(a)\<close>: \<open>out[k] = a[k+1] - a[k]\<close>.\<close>

definition np_diff :: "npfloat list \<Rightarrow> npfloat list" where
  "np_diff xs = map (\<lambda>(a, b). fl_sub b a) (zip xs (tl xs))"

text \<open>
  \<^verbatim>\<open>np.corrcoef(x, y)[0, 1]\<close> for two arrays of one length \<open>N\<close>: the covariance matrix
  with \<open>ddof = 1\<close> (the deviations from the row means, their products summed and multiplied
  by \<open>1 / fact\<close> where \<open>fact = max (N - 1) 0\<close>), its entry \<open>[0, 1]\<close> divided by the square
  root of \<open>[0, 0]\<close> and then by that of \<open>[1, 1]\<close>, and the quotient clipped to \<open>[-1, 1]\<close>.
\<close>

definition np_corrcoef :: "npfloat list \<Rightarrow> npfloat list \<Rightarrow> npfloat" where
  "np_corrcoef x y =
     (let fact = Fin (real (length x - 1));
          dx = map (\<lambda>v. fl_sub v (np_mean x)) x;
          dy = map (\<lambda>v. fl_sub v (np_mean y)) y;
          dot = (\<lambda>a b. np_sum (map (\<lambda>(u, v). fl_mul u v) (zip a b)));
          scale = fl_div (Fin 1) fact;
          c00 = fl_mul (dot dx dx) scale;
          c01 = fl_mul (dot dx dy) scale;
          c11 = fl_mul (dot dy dy) scale;
          r = fl_div (fl_div c01 (fl_sqrt c00)) (fl_sqrt c11)
      in np_clip r (Fin (- 1)) (Fin 1))"

subsection \<open>Python's range and slices\<close>

text \<open>\<^verbatim>\<open>range(start, stop, step)\<close>: the loop that produces the offsets, for either sign
  of the step; a zero step raises \<^verbatim>\<open>ValueError\<close>.\<close>

function range_from :: "int \<Rightarrow> int \<Rightarrow> int \<Rightarrow> int list" where
  "range_from i stop step =
     (if 0 < step \<and> i < stop then i # range_from (i + step) stop step
      else if step < 0 \<and> stop < i then i # range_from (i + step) stop step
      else [])"
  by pat_completeness auto
termination
  by (relation "measure (\<lambda>(i, stop, step). nat (if 0 < step then stop - i else i - stop))") auto

declare range_from.simps [simp del]

definition py_range :: "int \<Rightarrow> int \<Rightarrow> int \<Rightarrow> py_error + int list" where
  "py_range start stop step = (if step = 0 then Inl ValueError else Inr (range_from start stop step))"

text \<open>\<^verbatim>\<open>a[lo:hi]\<close>: a negative bound counts from the end, and both bounds are clamped to
  the array.\<close>

definition slice_bound :: "nat \<Rightarrow> int \<Rightarrow> nat" where
  "slice_bound n k = (if k < 0 then nat (max (k + int n) 0) else min (nat k) n)"

definition py_slice :: "'a list \<Rightarrow> int \<Rightarrow> int \<Rightarrow> 'a list" where
  "py_slice a lo hi =
     (let l = slice_bound (length a) lo; h = slice_bound (length a) hi
      in take (h - l) (drop l a))"

section \<open>calculate_c_index\<close>

text \<open>Lines 80 to 100 of \<^verbatim>\<open>cindex.py\<close>: the C-Index of one filtered segment.\<close>

definition smoothness_of :: "npfloat list \<Rightarrow> npfloat" where
  "smoothness_of segment =
     (let gradient = map fl_abs (np_diff segment)
      in fl_div (Fin 1)
           (fl_add (Fin 1) (fl_div (np_mean gradient) (fl_add (np_std segment) (Fin (1 / 10 ^ 10))))))"

definition stability_of :: "npfloat list \<Rightarrow> npfloat" where
  "stability_of segment =
     (let mean_val = np_mean segment
      in if fl_less (Fin (1 / 10 ^ 10)) (fl_abs mean_val)
         then (let cv = fl_div (np_std segment) (fl_abs mean_val)
               in fl_div (Fin 1) (fl_add (Fin 1) cv))
         else Fin (1 / 2))"

definition consistency_of :: "npfloat list \<Rightarrow> npfloat" where
  "consistency_of segment =
     (if 1 < length segment
      then (let autocorr = np_corrcoef (butlast segment) (tl segment)
            in if isfinite autocorr then fl_div (fl_add autocorr (Fin 1)) (Fin 2) else Fin (1 / 2))
      else Fin (1 / 2))"

definition window_c_index :: "npfloat list \<Rightarrow> npfloat" where
  "window_c_index segment =
     fl_div (fl_add (fl_add (smoothness_of segment) (stability_of segment)) (consistency_of segment))
       (Fin 3)"

text \<open>
  The body of the \<^verbatim>\<open>for\<close> loop, on the state \<open>(positions, c_indices)\<close>: the two
  \<^verbatim>\<open>continue\<close> checks, and the two appends.
\<close>

definition window_step ::
  "npfloat list \<Rightarrow> int \<Rightarrow> npfloat \<Rightarrow> npfloat list \<times> npfloat list \<Rightarrow> int \<Rightarrow> npfloat list \<times> npfloat list"
where
  "window_step data window min_valid_fraction acc i =
     (let segment = py_slice data i (i + window)
      in if fl_less (Fin (real (length (filter isfinite segment))))
                    (fl_mul (Fin (real_of_int window)) min_valid_fraction)
         then acc
         else (let segment' = filter isfinite segment
               in if length segment' < 10 then acc
                  else (fst acc @ [Fin (real_of_int i + real_of_int window / 2)],
                        snd acc @ [window_c_index segment'])))"

text \<open>A window is accepted when neither \<^verbatim>\<open>continue\<close> is taken; it then yields the
  sample made of its midpoint and the C-Index of its finite entries.\<close>

definition window_accepted :: "npfloat list \<Rightarrow> int \<Rightarrow> npfloat \<Rightarrow> int \<Rightarrow> bool" where
  "window_accepted data window min_valid_fraction i =
     (let segment = py_slice data i (i + window)
      in \<not> fl_less (Fin (real (length (filter isfinite segment))))
                     (fl_mul (Fin (real_of_int window)) min_valid_fraction)
         \<and> \<not> length (filter isfinite segment) < 10)"

definition window_position :: "int \<Rightarrow> int \<Rightarrow> npfloat" where
  "window_position window i = Fin (real_of_int i + real_of_int window / 2)"

definition window_value :: "npfloat list \<Rightarrow> int \<Rightarrow> int \<Rightarrow> npfloat" where
  "window_value data window i = window_c_index (filter isfinite (py_slice data i (i + window)))"

definition calculate_c_index ::
  "npfloat list \<Rightarrow> int \<Rightarrow> int \<Rightarrow> npfloat \<Rightarrow> py_error + (npfloat list \<times> npfloat list)"
where
  "calculate_c_index data window step min_valid_fraction =
     (let n = int (length data)
      in case py_range 0 (n - window) step of
           Inl e \<Rightarrow> Inl e
         | Inr offsets \<Rightarrow> Inr (foldl (window_step data window min_valid_fraction) ([], []) offsets))"

section \<open>c_index_statistics, detect_anomalies, coherence_quality_score\<close>

text \<open>The dictionary that \<^verbatim>\<open>c_index_statistics\<close> returns, one field per key.\<close>

record stats =
  mean :: npfloat
  std :: npfloat
  min_val :: npfloat
  max_val :: npfloat
  cv :: npfloat
  anomaly_threshold :: npfloat
  n_values :: nat

text \<open>The dictionary display evaluates its values in order; only \<^verbatim>\<open>np.min\<close> and
  \<^verbatim>\<open>np.max\<close> can raise.\<close>

definition c_index_statistics :: "npfloat list \<Rightarrow> py_error + stats" where
  "c_index_statistics c_indices =
     (case np_min c_indices of
        Inl e \<Rightarrow> Inl e
      | Inr mn \<Rightarrow>
          (case np_max c_indices of
             Inl e \<Rightarrow> Inl e
           | Inr mx \<Rightarrow>
               Inr \<lparr> mean = np_mean c_indices,
                     std = np_std c_indices,
                     min_val = mn,
                     max_val = mx,
                     cv = (if fl_less (Fin 0) (np_mean c_indices)
                           then fl_div (np_std c_indices) (np_mean c_indices) else Fin 0),
                     anomaly_threshold = fl_sub (np_mean c_indices) (fl_mul (Fin 2) (np_std c_indices)),
                     n_values = length c_indices \<rparr>))"

text \<open>\<^verbatim>\<open>a[mask]\<close> with a boolean mask: the entries where the mask is true, in order; a
  mask of another length raises \<^verbatim>\<open>IndexError\<close>.\<close>

definition bool_index :: "'a list \<Rightarrow> bool list \<Rightarrow> py_error + 'a list" where
  "bool_index a bmask =
     (if length bmask \<noteq> length a then Inl IndexError
      else Inr (map fst (filter snd (zip a bmask))))"

definition detect_anomalies ::
  "npfloat list \<Rightarrow> npfloat list \<Rightarrow> npfloat \<Rightarrow> py_error + (npfloat list \<times> npfloat list)"
where
  "detect_anomalies positions c_indices threshold_sigma =
     (let threshold = fl_sub (np_mean c_indices) (fl_mul threshold_sigma (np_std c_indices));
          anomaly_mask = map (\<lambda>c. fl_less c threshold) c_indices
      in case bool_index positions anomaly_mask of
           Inl e \<Rightarrow> Inl e
         | Inr ps \<Rightarrow>
             (case bool_index c_indices anomaly_mask of
                Inl e \<Rightarrow> Inl e
              | Inr cs \<Rightarrow> Inr (ps, cs)))"

definition coherence_quality_score :: "npfloat \<Rightarrow> npfloat \<Rightarrow> string" where
  "coherence_quality_score mean_c cv' =
     (if fl_less (Fin (85 / 100)) mean_c \<and> fl_less cv' (Fin (5 / 100)) then ''Excellent''
      else if fl_less (Fin (80 / 100)) mean_c \<and> fl_less cv' (Fin (10 / 100)) then ''Good''
      else if fl_less (Fin (70 / 100)) mean_c \<and> fl_less cv' (Fin (15 / 100)) then ''Fair''
      else ''Poor'')"

section \<open>The spec's words\<close>

text \<open>The arithmetic mean and the population standard deviation of a sequence of reals,
  as the specification names them.\<close>

definition arith_mean :: "real list \<Rightarrow> real" where
  "arith_mean rs = sum_list rs / real (length rs)"

definition pop_std :: "real list \<Rightarrow> real" where
  "pop_std rs = sqrt ((\<Sum>r\<leftarrow>rs. (r - arith_mean rs)\<^sup>2) / real (length rs))"

text \<open>The offsets the specification's scan visits: \<open>0, step, 2 * step, ...\<close> as long as
  \<open>i + window \<le> length data\<close>.\<close>

definition spec_offsets :: "nat \<Rightarrow> int \<Rightarrow> int \<Rightarrow> int list" where
  "spec_offsets n window step = range_from 0 (int n - window + 1) step"

section \<open>Finite arrays compute in the reals\<close>

lemma np_sum_Fin: "np_sum (map Fin rs) = Fin (sum_list rs)"
  by (induction rs) auto

lemma np_mean_Fin: "rs \<noteq> [] \<Longrightarrow> np_mean (map Fin rs) = Fin (arith_mean rs)"
  by (simp add: np_mean_def np_sum_Fin arith_mean_def)

lemma np_mean_Nil: "np_mean [] = NaN"
  by (simp add: np_mean_def)

lemma sum_sq_nonneg: "0 \<le> (\<Sum>r\<leftarrow>rs. (r - m)\<^sup>2 :: real)"
  by (induction rs) auto

lemma np_sum_sq_dev:
  "np_sum (map (\<lambda>d. fl_mul d d) (map (\<lambda>v. fl_sub v (Fin m)) (map Fin rs))) = Fin (\<Sum>r\<leftarrow>rs. (r - m)\<^sup>2)"
  by (induction rs) (simp_all add: fl_sub_def power2_eq_square)

lemma np_std_Fin: "rs \<noteq> [] \<Longrightarrow> np_std (map Fin rs) = Fin (pop_std rs)"
proof -
  assume ne: "rs \<noteq> []"
  have "np_std (map Fin rs)
        = fl_sqrt (fl_div (Fin (\<Sum>r\<leftarrow>rs. (r - arith_mean rs)\<^sup>2)) (Fin (real (length rs))))"
    unfolding np_std_def Let_def np_mean_Fin[OF ne] np_sum_sq_dev by simp
  also have "\<dots> = Fin (pop_std rs)"
    using ne sum_sq_nonneg[where rs = rs and m = "arith_mean rs"] by (simp add: pop_std_def)
  finally show ?thesis .
qed

lemma np_std_Nil: "np_std [] = NaN"
  by (simp add: np_std_def np_mean_def)


section \<open>The scanning loop\<close>

lemma window_step_eq:
  "window_step data window f acc i =
     (if window_accepted data window f i
      then (fst acc @ [window_position window i], snd acc @ [window_value data window i])
      else acc)"
  by (simp add: window_step_def window_accepted_def window_position_def window_value_def Let_def)

lemma foldl_window_step:
  "foldl (window_step data window f) acc offs =
     (fst acc @ map (window_position window) (filter (window_accepted data window f) offs),
      snd acc @ map (window_value data window) (filter (window_accepted data window f) offs))"
  by (induction offs arbitrary: acc) (simp_all add: window_step_eq)

lemma calculate_c_index_eq:
  "step \<noteq> 0 \<Longrightarrow>
   calculate_c_index data window step f =
     Inr (map (window_position window)
            (filter (window_accepted data window f) (range_from 0 (int (length data) - window) step)),
          map (window_value data window)
            (filter (window_accepted data window f) (range_from 0 (int (length data) - window) step)))"
  by (simp add: calculate_c_index_def py_range_def foldl_window_step Let_def)

lemma range_from_lower: "0 < step \<Longrightarrow> j \<in> set (range_from i stop step) \<Longrightarrow> i \<le> j"
proof (induction i stop step rule: range_from.induct)
  case (1 i stop step)
  then show ?case
    by (cases "i < stop") (auto simp: range_from.simps[of i stop step])
qed

lemma range_from_sorted: "0 < step \<Longrightarrow> sorted_wrt (<) (range_from i stop step)"
proof (induction i stop step rule: range_from.induct)
  case (1 i stop step)
  show ?case
  proof (cases "i < stop")
    case True
    have "\<forall>j\<in>set (range_from (i + step) stop step). i < j"
      using range_from_lower[of step _ "i + step" stop] "1.prems" by fastforce
    with True 1 show ?thesis
      by (subst range_from.simps) simp
  next
    case False
    then show ?thesis using "1.prems" by (subst range_from.simps) simp
  qed
qed

lemma range_from_set:
  "0 < step \<Longrightarrow> set (range_from i stop step) = {j. \<exists>k::nat. j = i + int k * step \<and> j < stop}"
proof (induction i stop step rule: range_from.induct)
  case (1 i stop step)
  show ?case
  proof (cases "i < stop")
    case True
    have ih: "set (range_from (i + step) stop step) = {j. \<exists>k::nat. j = i + step + int k * step \<and> j < stop}"
      using 1 True by simp
    have "{j. \<exists>k::nat. j = i + int k * step \<and> j < stop}
          = insert i {j. \<exists>k::nat. j = i + step + int k * step \<and> j < stop}" (is "?A = insert i ?B")
    proof (intro set_eqI iffI)
      fix j assume "j \<in> ?A"
      then obtain k :: nat where k: "j = i + int k * step" "j < stop" by blast
      show "j \<in> insert i ?B"
      proof (cases k)
        case 0
        then show ?thesis using k by simp
      next
        case (Suc m)
        then have "j = i + step + int m * step" using k by (simp add: algebra_simps)
        then show ?thesis using k by blast
      qed
    next
      fix j assume "j \<in> insert i ?B"
      then consider "j = i" | "j \<in> ?B" by blast
      then show "j \<in> ?A"
      proof cases
        case 1
        then have "j = i + int 0 * step \<and> j < stop" using True by simp
        then show ?thesis by blast
      next
        case 2
        then obtain m :: nat where "j = i + step + int m * step" "j < stop" by blast
        then have "j = i + int (Suc m) * step \<and> j < stop" by (simp add: algebra_simps)
        then show ?thesis by blast
      qed
    qed
    with ih True "1.prems" show ?thesis
      by (subst range_from.simps) simp
  next
    case False
    have "{j. \<exists>k::nat. j = i + int k * step \<and> j < stop} = {}"
    proof -
      have "\<not> i + int k * step < stop" for k :: nat
      proof -
        have "i \<le> i + int k * step" using "1.prems" by simp
        then show ?thesis using False by linarith
      qed
      then show ?thesis by blast
    qed
    with False "1.prems" show ?thesis by (subst range_from.simps) simp
  qed
qed

section \<open>Slices\<close>

lemma set_py_slice: "set (py_slice a lo hi) \<subseteq> set a"
  unfolding py_slice_def Let_def
  by (meson set_take_subset set_drop_subset subset_trans)

section \<open>Constant windows\<close>

lemma arith_mean_replicate: "0 < k \<Longrightarrow> arith_mean (replicate k c) = c"
  by (simp add: arith_mean_def sum_list_replicate)

lemma pop_std_replicate: "0 < k \<Longrightarrow> pop_std (replicate k c) = 0"
  by (simp add: pop_std_def arith_mean_replicate sum_list_replicate)

lemma replicate_Fin: "replicate k (Fin c) = map Fin (replicate k c)"
  by simp

lemma np_mean_replicate: "0 < k \<Longrightarrow> np_mean (replicate k (Fin c)) = Fin c"
  unfolding replicate_Fin by (simp add: np_mean_Fin arith_mean_replicate del: map_replicate)

lemma np_std_replicate: "0 < k \<Longrightarrow> np_std (replicate k (Fin c)) = Fin 0"
  unfolding replicate_Fin by (simp add: np_std_Fin pop_std_replicate del: map_replicate)

lemma zip_replicate_tl: "zip (replicate k a) (tl (replicate k a)) = replicate (k - 1) (a, a)"
  by (cases k) (simp_all add: min_def del: replicate_Suc)

lemma gradient_replicate:
  "map fl_abs (np_diff (replicate k (Fin c))) = replicate (k - 1) (Fin 0)"
  by (simp add: np_diff_def zip_replicate_tl fl_sub_def)

lemma smoothness_replicate:
  assumes "2 \<le> k"
  shows "smoothness_of (replicate k (Fin c)) = Fin 1"
proof -
  have "0 < k - 1" "0 < k" using assms by simp_all
  then show ?thesis
    unfolding smoothness_of_def Let_def gradient_replicate
    by (simp add: np_mean_replicate np_std_replicate)
qed

lemma stability_replicate:
  assumes "0 < k"
  shows "stability_of (replicate k (Fin c)) = (if 1 / 10 ^ 10 < \<bar>c\<bar> then Fin 1 else Fin (1 / 2))"
  using assms unfolding stability_of_def Let_def
  by (auto simp add: np_mean_replicate np_std_replicate)

lemma np_sum_replicate_zero: "np_sum (replicate m (Fin 0)) = Fin 0"
  by (induction m) simp_all

lemma np_corrcoef_replicate:
  assumes "0 < m"
  shows "np_corrcoef (replicate m (Fin c)) (replicate m (Fin c)) = NaN"
proof -
  let ?d = "map (\<lambda>v. fl_sub v (np_mean (replicate m (Fin c)))) (replicate m (Fin c))"
  have d: "?d = replicate m (Fin 0)"
    using assms by (simp add: np_mean_replicate fl_sub_def)
  have dot: "np_sum (map (\<lambda>(u, v). fl_mul u v) (zip ?d ?d)) = Fin 0"
    unfolding d by (simp add: zip_replicate np_sum_replicate_zero)
  have c00: "fl_sqrt (fl_mul (Fin 0) (fl_div (Fin 1) (Fin (real (m - 1))))) = Fin 0
             \<or> fl_sqrt (fl_mul (Fin 0) (fl_div (Fin 1) (Fin (real (m - 1))))) = NaN"
    by simp
  have c01: "fl_mul (Fin 0) (fl_div (Fin 1) (Fin (real (m - 1)))) = Fin 0
             \<or> fl_mul (Fin 0) (fl_div (Fin 1) (Fin (real (m - 1)))) = NaN"
    by simp
  have "fl_div (fl_mul (Fin 0) (fl_div (Fin 1) (Fin (real (m - 1)))))
               (fl_sqrt (fl_mul (Fin 0) (fl_div (Fin 1) (Fin (real (m - 1)))))) = NaN"
    using c00 c01 by auto
  then show ?thesis
    unfolding np_corrcoef_def Let_def length_replicate dot
    by (simp add: np_clip_def fl_min_def fl_max_def)
qed

lemma consistency_replicate: "consistency_of (replicate k (Fin c)) = Fin (1 / 2)"
proof (cases "1 < k")
  case True
  then have "0 < k - 1" by simp
  have "butlast (replicate k (Fin c)) = replicate (k - 1) (Fin c)"
    by (simp add: butlast_conv_take)
  moreover have "tl (replicate k (Fin c)) = replicate (k - 1) (Fin c)" by simp
  ultimately show ?thesis
    using True np_corrcoef_replicate[OF \<open>0 < k - 1\<close>, of c]
    by (simp add: consistency_of_def del: tl_replicate)
next
  case False
  then show ?thesis by (simp add: consistency_of_def)
qed

lemma window_c_index_replicate:
  assumes "2 \<le> k"
  shows "window_c_index (replicate k (Fin c)) = (if 1 / 10 ^ 10 < \<bar>c\<bar> then Fin (5 / 6) else Fin (2 / 3))"
proof -
  have "0 < k" using assms by simp
  then show ?thesis
    by (simp add: window_c_index_def smoothness_replicate[OF assms] stability_replicate
        consistency_replicate)
qed



section \<open>Accepted windows\<close>

lemma position_less: "i < j \<Longrightarrow> fl_less (window_position window i) (window_position window j)"
  by (simp add: window_position_def)

lemma sorted_wrt_positions:
  "sorted_wrt (<) offs \<Longrightarrow> sorted_wrt fl_less (map (window_position window) offs)"
  by (simp add: sorted_wrt_map position_less sorted_wrt_mono_rel[of offs "(<)"])

lemma not_accepted_all_nonfinite:
  assumes "\<forall>x\<in>set data. \<not> isfinite x"
  shows "\<not> window_accepted data window f i"
proof -
  have "filter isfinite (py_slice data i (i + window)) = []"
    using assms set_py_slice[of data i "i + window"] by (auto simp: filter_empty_conv)
  then show ?thesis by (simp add: window_accepted_def Let_def)
qed

section \<open>Statistics and masks on finite arrays\<close>

lemma fl_min_Fin: "fl_min (Fin a) (Fin b) = Fin (min b a)"
  by (simp add: fl_min_def min_def)

lemma fl_max_Fin: "fl_max (Fin a) (Fin b) = Fin (max b a)"
  by (simp add: fl_max_def max_def)

lemma foldl_fl_min: "foldl fl_min (Fin a) (map Fin rs) = Fin (fold min rs a)"
  by (induction rs arbitrary: a) (simp_all add: fl_min_Fin)

lemma foldl_fl_max: "foldl fl_max (Fin a) (map Fin rs) = Fin (fold max rs a)"
  by (induction rs arbitrary: a) (simp_all add: fl_max_Fin)

lemma np_min_Fin: "rs \<noteq> [] \<Longrightarrow> np_min (map Fin rs) = Inr (Fin (Min (set rs)))"
  by (cases rs) (simp_all add: foldl_fl_min Min.set_eq_fold del: set_simps)

lemma np_max_Fin: "rs \<noteq> [] \<Longrightarrow> np_max (map Fin rs) = Inr (Fin (Max (set rs)))"
  by (cases rs) (simp_all add: foldl_fl_max Max.set_eq_fold del: set_simps)

lemma mask_positions:
  "length ps = length rs \<Longrightarrow>
   map fst (filter snd (zip ps (map P rs))) = map fst (filter (\<lambda>(p, r). P r) (zip ps rs))"
  by (induction ps rs rule: list_induct2) simp_all

lemma mask_values: "map fst (filter snd (zip (map g rs) (map P rs))) = map g (filter P rs)"
  by (induction rs) simp_all

lemma pop_std_example: "pop_std [9 / 10, 9 / 10, 9 / 10, 9 / 10, 2 / 5] = 1 / 5"
proof -
  have "sqrt (1 / 25) = 1 / 5"
    by (rule real_sqrt_unique) (simp_all add: power2_eq_square)
  then show ?thesis by (simp add: pop_std_def arith_mean_def power2_eq_square)
qed

section \<open>Three scans of constant data, evaluated\<close>



lemma scan_const_two:
  "calculate_c_index (replicate 12 (Fin 1)) 10 1 (Fin (8 / 10))
     = Inr ([Fin 5, Fin 6], [Fin (5 / 6), Fin (5 / 6)])"
  by (simp add: calculate_c_index_eq window_accepted_def window_position_def window_value_def
      py_slice_def slice_bound_def window_c_index_replicate range_from.simps)

section \<open>The claims\<close>

text \<open>Throughout, a sequence of real values is an array \<open>map Fin rs\<close>, and a series is a pair
  of arrays of one length.\<close>

text \<open>
  \<^bold>\<open>C1\<close>. The claim: for \<open>window \<ge> 1\<close> and \<open>step \<ge> 1\<close> the scan visits exactly the offsets
  \<open>0, step, 2 * step, ...\<close> with \<open>i + window \<le> length data\<close>; when the data is exactly one window
  long, the window at offset 0 is visited and emitted if it is valid.

  The loop runs over \<^verbatim>\<open>range(0, n - window, step)\<close>, whose bound is exclusive: it visits the
  offsets with \<open>i + window < n\<close> (see \<open>range_from_set\<close>), so the last full window is never
  reached. On ten entries equal to \<open>1.0\<close> with \<open>window = 10\<close> and \<open>step = 1\<close> the scan returns
  two empty arrays, although the specification's offsets are \<open>[0]\<close> and the window at offset 0
  passes both validity checks.
\<close>

theorem last_full_window_not_visited:
  "calculate_c_index (replicate 10 (Fin 1)) 10 1 (Fin (8 / 10)) = Inr ([], [])
   \<and> spec_offsets (length (replicate 10 (Fin (1::real)))) 10 1 = [0]
   \<and> window_accepted (replicate 10 (Fin 1)) 10 (Fin (8 / 10)) 0"
  by (simp add: calculate_c_index_def py_range_def spec_offsets_def window_accepted_def
      py_slice_def slice_bound_def range_from.simps)

text \<open>
  \<^bold>\<open>C2\<close>. The claim: on an empty sequence \<open>c_index_statistics\<close> returns a record of NaN-valued
  fields and does not raise. It does raise: the mean and the standard deviation of an empty
  array are NaN, but the third value of the dictionary is \<^verbatim>\<open>np.min(c_indices)\<close>, which raises
  \<^verbatim>\<open>ValueError\<close> on an empty array, so no record is returned.
\<close>

theorem statistics_of_empty_counterexample:
  "\<not> (\<exists>r. c_index_statistics [] = Inr r)"
  by (simp add: c_index_statistics_def)

text \<open>
  \<^bold>\<open>C2\<close>, amended: the mean and the standard deviation of an empty sequence are NaN, the minimum
  raises \<^verbatim>\<open>ValueError\<close>, and so does \<open>c_index_statistics\<close>.
\<close>

theorem statistics_of_empty_raises:
  "np_mean [] = NaN \<and> np_std [] = NaN \<and> np_min [] = Inl ValueError
   \<and> c_index_statistics [] = Inl ValueError"
  by (simp add: c_index_statistics_def np_mean_Nil np_std_Nil)




text \<open>
  \<^bold>\<open>C5\<close>. For \<open>step \<ge> 1\<close> the returned positions are strictly increasing, and the sample of
  the accepted window at offset \<open>i\<close> has position \<open>i + window / 2\<close>, a real division: the two
  returned arrays are the midpoints and the C-Indices of the accepted offsets, in the order of
  the scan.
\<close>

theorem positions_strictly_increasing_midpoints:
  assumes "1 \<le> step"
  shows "\<exists>offs. offs = filter (window_accepted data window min_valid_fraction)
                         (range_from 0 (int (length data) - window) step)
          \<and> calculate_c_index data window step min_valid_fraction
              = Inr (map (\<lambda>i. Fin (real_of_int i + real_of_int window / 2)) offs,
                     map (window_value data window) offs)
          \<and> sorted_wrt fl_less (map (\<lambda>i. Fin (real_of_int i + real_of_int window / 2)) offs)"
proof -
  let ?offs = "filter (window_accepted data window min_valid_fraction)
                 (range_from 0 (int (length data) - window) step)"
  have "sorted_wrt (<) ?offs"
    using assms by (intro sorted_wrt_filter range_from_sorted) simp
  then have "sorted_wrt fl_less (map (window_position window) ?offs)"
    by (rule sorted_wrt_positions)
  moreover have "window_position window = (\<lambda>i. Fin (real_of_int i + real_of_int window / 2))"
    by (simp add: window_position_def fun_eq_iff)
  moreover have "step \<noteq> 0" using assms by simp
  ultimately show ?thesis
    using calculate_c_index_eq[of step data window min_valid_fraction] by simp
qed

theorem positions_strictly_increasing_midpoints_witness:
  "(1 :: int) \<le> 1
   \<and> (\<exists>offs. offs = [0, 1]
        \<and> calculate_c_index (replicate 12 (Fin 1)) 10 1 (Fin (8 / 10))
            = Inr (map (\<lambda>i. Fin (real_of_int i + real_of_int 10 / 2)) offs,
                   map (window_value (replicate 12 (Fin 1)) 10) offs)
        \<and> sorted_wrt fl_less (map (\<lambda>i. Fin (real_of_int i + real_of_int 10 / 2)) offs))
   \<and> calculate_c_index (replicate 12 (Fin 1)) 10 1 (Fin (8 / 10))
       = Inr ([Fin 5, Fin 6], [Fin (5 / 6), Fin (5 / 6)])"
proof -
  have acc: "filter (window_accepted (replicate 12 (Fin 1)) 10 (Fin (8 / 10)))
               (range_from 0 (int (length (replicate 12 (Fin (1::real)))) - 10) 1) = [0, 1]"
    by (simp add: window_accepted_def py_slice_def slice_bound_def range_from.simps)
  show ?thesis
    using positions_strictly_increasing_midpoints[of 1 "replicate 12 (Fin 1)" 10 "Fin (8 / 10)"]
      scan_const_two
    unfolding acc by simp
qed

text \<open>
  \<^bold>\<open>C6\<close>. On a non-empty sequence of reals \<open>c_index_statistics\<close> returns the arithmetic mean,
  the population standard deviation, the minimum and the maximum, \<open>cv = std / mean\<close> when the
  mean is positive and 0 otherwise, \<open>anomaly_threshold = mean - 2 * std\<close>, and the length.
\<close>

theorem statistics_of_nonempty:
  assumes "rs \<noteq> []"
  shows "c_index_statistics (map Fin rs) =
           Inr \<lparr> mean = Fin (arith_mean rs),
                 std = Fin (pop_std rs),
                 min_val = Fin (Min (set rs)),
                 max_val = Fin (Max (set rs)),
                 cv = Fin (if 0 < arith_mean rs then pop_std rs / arith_mean rs else 0),
                 anomaly_threshold = Fin (arith_mean rs - 2 * pop_std rs),
                 n_values = length rs \<rparr>"
  using assms
  by (simp add: c_index_statistics_def np_min_Fin np_max_Fin np_mean_Fin np_std_Fin fl_sub_def)

theorem statistics_of_nonempty_witness:
  "[1, 3] \<noteq> ([] :: real list) \<and>
   c_index_statistics [Fin 1, Fin 3] =
     Inr \<lparr> mean = Fin 2, std = Fin 1, min_val = Fin 1, max_val = Fin 3, cv = Fin (1 / 2),
           anomaly_threshold = Fin 0, n_values = 2 \<rparr>"
  using statistics_of_nonempty[of "[1, 3]"]
  by (simp add: pop_std_def arith_mean_def)

text \<open>
  \<^bold>\<open>C7\<close>. On a non-empty series \<open>detect_anomalies\<close> computes the threshold
  \<open>mean - threshold_sigma * std\<close> from the values it is given and returns the positions and
  the values of exactly the samples whose value is strictly below it, in their original
  order (possibly none).
\<close>

theorem detect_anomalies_below_threshold:
  assumes "rs \<noteq> []" and "length positions = length rs"
  shows "detect_anomalies positions (map Fin rs) (Fin sigma) =
           Inr (map fst (filter (\<lambda>(p, r). r < arith_mean rs - sigma * pop_std rs) (zip positions rs)),
                map Fin (filter (\<lambda>r. r < arith_mean rs - sigma * pop_std rs) rs))"
proof -
  let ?thr = "arith_mean rs - sigma * pop_std rs"
  have thr: "fl_sub (np_mean (map Fin rs)) (fl_mul (Fin sigma) (np_std (map Fin rs))) = Fin ?thr"
    using assms(1) by (simp add: np_mean_Fin np_std_Fin fl_sub_def)
  have m: "map (\<lambda>c. fl_less c (Fin ?thr)) (map Fin rs) = map (\<lambda>r. r < ?thr) rs"
    by simp
  have p: "bool_index positions (map (\<lambda>r. r < ?thr) rs)
           = Inr (map fst (filter (\<lambda>(p, r). r < ?thr) (zip positions rs)))"
    using assms(2) by (simp add: bool_index_def mask_positions)
  have c: "bool_index (map Fin rs) (map (\<lambda>r. r < ?thr) rs) = Inr (map Fin (filter (\<lambda>r. r < ?thr) rs))"
    by (simp add: bool_index_def mask_values)
  show ?thesis
    unfolding detect_anomalies_def Let_def thr m p c by simp
qed

theorem detect_anomalies_below_threshold_witness:
  "detect_anomalies [Fin 10, Fin 20, Fin 30, Fin 40, Fin 50]
      (map Fin [9 / 10, 9 / 10, 9 / 10, 9 / 10, 2 / 5]) (Fin 1)
    = Inr ([Fin 50], [Fin (2 / 5)])"
proof -
  have a: "arith_mean [9 / 10, 9 / 10, 9 / 10, 9 / 10, 2 / 5] = 4 / 5"
    by (simp add: arith_mean_def)
  show ?thesis
    using detect_anomalies_below_threshold[of "[9 / 10, 9 / 10, 9 / 10, 9 / 10, 2 / 5]"
          "[Fin 10, Fin 20, Fin 30, Fin 40, Fin 50]" 1]
    unfolding pop_std_example a by simp
qed

text \<open>
  \<^bold>\<open>C8\<close>. The claim: \<open>coherence_quality_score\<close> is total, follows the first matching rule of
  Excellent, Good, Fair, Poor, and negative or NaN inputs fall through to Poor. A negative
  \<open>cv\<close> does not: every rule asks \<open>cv\<close> to be below a bound, so a mean of \<open>0.9\<close> with a \<open>cv\<close>
  of \<open>-0.01\<close> is Excellent.
\<close>

theorem quality_score_negative_cv_counterexample:
  "coherence_quality_score (Fin (9 / 10)) (Fin (- 1 / 100)) = ''Excellent''
   \<and> coherence_quality_score (Fin (9 / 10)) (Fin (- 1 / 100)) \<noteq> ''Poor''"
  by (simp add: coherence_quality_score_def)

text \<open>
  \<^bold>\<open>C8\<close>, amended: the function returns one of the four labels on every pair of floats, by
  the first matching rule, an infinity being compared as the float it is (\<open>+inf\<close> is above
  every bound, \<open>-inf\<close> below); a NaN in either argument gives Poor, and so does a negative
  mean, finite or infinite. The eight conjuncts after the first cover every pair of arguments
  that are not both finite.
\<close>

theorem quality_score_rules:
  "coherence_quality_score a b \<in> {''Excellent'', ''Good'', ''Fair'', ''Poor''}
   \<and> coherence_quality_score (Fin m) (Fin c) =
     (if 85 / 100 < m \<and> c < 5 / 100 then ''Excellent''
      else if 80 / 100 < m \<and> c < 10 / 100 then ''Good''
      else if 70 / 100 < m \<and> c < 15 / 100 then ''Fair''
      else ''Poor'')
   \<and> coherence_quality_score PInf (Fin c) =
     (if c < 5 / 100 then ''Excellent''
      else if c < 10 / 100 then ''Good''
      else if c < 15 / 100 then ''Fair''
      else ''Poor'')
   \<and> coherence_quality_score (Fin m) NInf =
     (if 85 / 100 < m then ''Excellent''
      else if 80 / 100 < m then ''Good''
      else if 70 / 100 < m then ''Fair''
      else ''Poor'')
   \<and> coherence_quality_score PInf NInf = ''Excellent''
   \<and> coherence_quality_score NaN x = ''Poor''
   \<and> coherence_quality_score x NaN = ''Poor''
   \<and> coherence_quality_score NInf x = ''Poor''
   \<and> coherence_quality_score x PInf = ''Poor''
   \<and> (m < 0 \<longrightarrow> coherence_quality_score (Fin m) x = ''Poor'')"
proof -
  have "coherence_quality_score a b \<in> {''Excellent'', ''Good'', ''Fair'', ''Poor''}"
    by (simp add: coherence_quality_score_def)
  moreover have "coherence_quality_score NaN x = ''Poor''"
    "coherence_quality_score x NaN = ''Poor''"
    "coherence_quality_score NInf x = ''Poor''"
    "coherence_quality_score x PInf = ''Poor''"
    "m < 0 \<longrightarrow> coherence_quality_score (Fin m) x = ''Poor''"
    by (cases x; simp add: coherence_quality_score_def)+
  ultimately show ?thesis
    by (simp add: coherence_quality_score_def)
qed

theorem quality_score_rules_witness:
  "coherence_quality_score (Fin (90 / 100)) (Fin (3 / 100)) = ''Excellent''
   \<and> coherence_quality_score (Fin (85 / 100)) (Fin (7 / 100)) = ''Good''
   \<and> coherence_quality_score (Fin (75 / 100)) (Fin (12 / 100)) = ''Fair''
   \<and> coherence_quality_score (Fin (65 / 100)) (Fin (20 / 100)) = ''Poor''
   \<and> (- 1 :: real) < 0
   \<and> coherence_quality_score (Fin (- 1)) (Fin (3 / 100)) = ''Poor''"
  using quality_score_rules[of _ _ "90 / 100" "3 / 100"] quality_score_rules[of _ _ "85 / 100" "7 / 100"]
        quality_score_rules[of _ _ "75 / 100" "12 / 100"] quality_score_rules[of _ _ "65 / 100" "20 / 100"]
        quality_score_rules[of _ _ "- 1" _ "Fin (3 / 100)"]
  by simp

text \<open>
  \<^bold>\<open>C9\<close>. The claim: on data shorter than the window the scan returns an empty series and
  raises nothing, and on data without a finite entry every window is skipped. Neither half
  holds for every step. With \<open>step = 0\<close> the call \<^verbatim>\<open>range(0, n - window, 0)\<close> raises
  \<^verbatim>\<open>ValueError\<close> before any window is looked at. With a negative step and short data the
  range runs downwards from 0: on twelve entries with \<open>window = 20\<close>, \<open>step = -1\<close> and a
  validity fraction of \<open>0.5\<close> the slice at offset 0 holds all twelve entries, passes both
  checks, and a sample at position 10 is returned.
\<close>

theorem short_data_counterexample:
  "calculate_c_index (replicate 5 (Fin 1)) 10 0 (Fin (8 / 10)) = Inl ValueError
   \<and> calculate_c_index (replicate 12 (Fin 1)) 20 (- 1) (Fin (1 / 2))
       = Inr ([Fin 10], [window_value (replicate 12 (Fin 1)) 20 0])"
proof
  show "calculate_c_index (replicate 5 (Fin 1)) 10 0 (Fin (8 / 10)) = Inl ValueError"
    by (simp add: calculate_c_index_def py_range_def)
next
  have offs: "range_from 0 (- 8) (- 1) = [0, - 1, - 2, - 3, - 4, - 5, - 6, - 7]"
    by (simp add: range_from.simps)
  have yes: "window_accepted (replicate 12 (Fin 1)) 20 (Fin (1 / 2)) 0"
    by (simp add: window_accepted_def py_slice_def slice_bound_def)
  have no:
    "\<not> window_accepted (replicate 12 (Fin 1)) 20 (Fin (1 / 2)) (- 1)"
    "\<not> window_accepted (replicate 12 (Fin 1)) 20 (Fin (1 / 2)) (- 2)"
    "\<not> window_accepted (replicate 12 (Fin 1)) 20 (Fin (1 / 2)) (- 3)"
    "\<not> window_accepted (replicate 12 (Fin 1)) 20 (Fin (1 / 2)) (- 4)"
    "\<not> window_accepted (replicate 12 (Fin 1)) 20 (Fin (1 / 2)) (- 5)"
    "\<not> window_accepted (replicate 12 (Fin 1)) 20 (Fin (1 / 2)) (- 6)"
    "\<not> window_accepted (replicate 12 (Fin 1)) 20 (Fin (1 / 2)) (- 7)"
    by (simp_all add: window_accepted_def py_slice_def slice_bound_def)
  show "calculate_c_index (replicate 12 (Fin 1)) 20 (- 1) (Fin (1 / 2))
       = Inr ([Fin 10], [window_value (replicate 12 (Fin 1)) 20 0])"
    by (simp add: calculate_c_index_eq offs yes no window_position_def)
qed

text \<open>
  \<^bold>\<open>C9\<close>, amended: for every step \<open>\<ge> 1\<close>, data shorter than the window gives two empty arrays
  and no error; for every non-zero step, data without a finite entry gives two empty arrays,
  every window being skipped, whatever the window and the validity fraction; a zero step
  raises \<^verbatim>\<open>ValueError\<close>.
\<close>

theorem short_or_nonfinite_data_empty_series:
  "(1 \<le> step \<and> int (length data) < window
      \<longrightarrow> calculate_c_index data window step min_valid_fraction = Inr ([], []))
   \<and> (step \<noteq> 0 \<and> (\<forall>x\<in>set data. \<not> isfinite x)
      \<longrightarrow> calculate_c_index data window step min_valid_fraction = Inr ([], [])
          \<and> (\<forall>i. \<not> window_accepted data window min_valid_fraction i))
   \<and> calculate_c_index data window 0 min_valid_fraction = Inl ValueError"
proof (intro conjI impI allI)
  assume "1 \<le> step \<and> int (length data) < window"
  then have "range_from 0 (int (length data) - window) step = []" "step \<noteq> 0"
    by (simp_all add: range_from.simps[of 0])
  then show "calculate_c_index data window step min_valid_fraction = Inr ([], [])"
    by (simp add: calculate_c_index_eq)
next
  assume a: "step \<noteq> 0 \<and> (\<forall>x\<in>set data. \<not> isfinite x)"
  then have "filter (window_accepted data window min_valid_fraction) offs = []" for offs
    by (simp add: filter_empty_conv not_accepted_all_nonfinite)
  then show "calculate_c_index data window step min_valid_fraction = Inr ([], [])"
    using a by (simp add: calculate_c_index_eq)
next
  fix i
  assume "step \<noteq> 0 \<and> (\<forall>x\<in>set data. \<not> isfinite x)"
  then show "\<not> window_accepted data window min_valid_fraction i"
    by (simp add: not_accepted_all_nonfinite)
next
  show "calculate_c_index data window 0 min_valid_fraction = Inl ValueError"
    by (simp add: calculate_c_index_def py_range_def)
qed

theorem short_or_nonfinite_data_empty_series_witness:
  "calculate_c_index (replicate 50 (Fin 1)) 100 50 (Fin (8 / 10)) = Inr ([], [])
   \<and> calculate_c_index (replicate 20 NaN) 10 5 (Fin (8 / 10)) = Inr ([], [])
   \<and> \<not> window_accepted (replicate 20 NaN) 10 (Fin (8 / 10)) 0
   \<and> calculate_c_index (replicate 20 NaN) 10 0 (Fin (8 / 10)) = Inl ValueError"
  using short_or_nonfinite_data_empty_series[of 50 "replicate 50 (Fin 1)" 100 "Fin (8 / 10)"]
        short_or_nonfinite_data_empty_series[of 5 "replicate 20 NaN" 10 "Fin (8 / 10)"]
  by simp

end
